theory Spec2Isabelle
  imports Main "HOL-Library.Word"
begin

unbundle bit_operations_syntax

section \<open>Package sqlite3tracemask\<close>

text \<open>
  \<^verbatim>\<open>type Config struct { Stmt bool; Profile bool; Row bool; Close bool }\<close>
\<close>

record Config =
  Stmt :: bool
  Profile :: bool
  Row :: bool
  Close :: bool

text \<open>
  The zero value of the struct, which is what \<^verbatim>\<open>var maskConf sqlite3tracemask.Config\<close>
  declares.
\<close>

definition zeroConfig :: Config where
  "zeroConfig = \<lparr>Stmt = False, Profile = False, Row = False, Close = False\<rparr>"

text \<open>
  The four constants \<^verbatim>\<open>sqlite3.TraceStmt\<close>, \<^verbatim>\<open>sqlite3.TraceProfile\<close>,
  \<^verbatim>\<open>sqlite3.TraceRow\<close> and \<^verbatim>\<open>sqlite3.TraceClose\<close> belong to the driver package
  \<^verbatim>\<open>github.com/gimpldo/go-sqlite3\<close>, which is not part of this repository. They are
  taken as a parameter: four values of Go's type \<^verbatim>\<open>uint\<close>, a machine word whose
  width (32 or 64 bits) depends on the platform and is left open here.
\<close>

datatype 'w TraceConsts =
  TraceConsts (TraceStmt: 'w) (TraceProfile: 'w) (TraceRow: 'w) (TraceClose: 'w)

text \<open>
  \<^verbatim>\<open>DecodeStringArg(dest *Config, s string)\<close>. The body of the loop is the
  \<^verbatim>\<open>switch\<close> on one character; a character that matches no \<^verbatim>\<open>case\<close> leaves
  \<^verbatim>\<open>*dest\<close> as it is. The destination is the address of a Config variable
  (\<^verbatim>\<open>&maskConf\<close> at the call in \<^verbatim>\<open>main\<close>); the model takes the value stored
  there and returns the value stored there afterwards. The function has no error
  result and no panicking statement.

  Go's \<^verbatim>\<open>range\<close> over a string yields Unicode code points decoded from UTF-8. The
  four labels are ASCII characters; a byte below 0x80 always decodes to itself and
  never occurs inside the encoding of another code point, so the \<^verbatim>\<open>switch\<close> sees
  one of the labels exactly at the bytes that hold it. The loop is therefore taken
  over the bytes of the string.
\<close>

definition decodeChar :: "Config \<Rightarrow> char \<Rightarrow> Config" where
  "decodeChar dest c =
     (if c = CHR ''s'' then dest\<lparr>Stmt := True\<rparr>
      else if c = CHR ''p'' then dest\<lparr>Profile := True\<rparr>
      else if c = CHR ''r'' then dest\<lparr>Row := True\<rparr>
      else if c = CHR ''c'' then dest\<lparr>Close := True\<rparr>
      else dest)"

fun DecodeStringArg :: "Config \<Rightarrow> string \<Rightarrow> Config" where
  "DecodeStringArg dest [] = dest"
| "DecodeStringArg dest (c # s) = DecodeStringArg (decodeChar dest c) s"

text \<open>
  \<^verbatim>\<open>strings.Join(elems, sep)\<close> of the standard library: the elements in order, with
  the separator between each two neighbours.
\<close>

fun Join :: "string list \<Rightarrow> string \<Rightarrow> string" where
  "Join [] sep = []"
| "Join [e] sep = e"
| "Join (e # e' # es) sep = e @ sep @ Join (e' # es) sep"

text \<open>
  \<^verbatim>\<open>func (c *Config) GenerateStringArg() string\<close>: the fragments are appended to
  \<^verbatim>\<open>sf\<close> in the order of the four tests and joined with the empty separator.
\<close>

definition GenerateStringArg :: "Config \<Rightarrow> string" where
  "GenerateStringArg c =
     (let sf = [];
          sf = (if Stmt c then sf @ [''s''] else sf);
          sf = (if Profile c then sf @ [''p''] else sf);
          sf = (if Row c then sf @ [''r''] else sf);
          sf = (if Close c then sf @ [''c''] else sf)
      in Join sf [])"

text \<open>
  \<^verbatim>\<open>func (c *Config) EventMask() uint\<close>: the local \<^verbatim>\<open>mask\<close> (here \<open>mask'\<close>)
  starts at zero and each test that succeeds ORs one constant into it.
\<close>

definition EventMask :: "'a::len word TraceConsts \<Rightarrow> Config \<Rightarrow> 'a word" where
  "EventMask k c =
     (let mask' = 0;
          mask' = (if Stmt c then mask' OR TraceStmt k else mask');
          mask' = (if Profile c then mask' OR TraceProfile k else mask');
          mask' = (if Row c then mask' OR TraceRow k else mask');
          mask' = (if Close c then mask' OR TraceClose k else mask')
      in mask')"

text \<open>
  \<^verbatim>\<open>func (c *Config) GenerateBoolArgs() string\<close>, with the four flag names
  \<^verbatim>\<open>stmtArg\<close>, \<^verbatim>\<open>profileArg\<close>, \<^verbatim>\<open>rowArg\<close> and \<^verbatim>\<open>closeArg\<close>.
\<close>

definition stmtArg :: string where "stmtArg = ''trace-stmt''"
definition profileArg :: string where "profileArg = ''trace-profile''"
definition rowArg :: string where "rowArg = ''trace-row''"
definition closeArg :: string where "closeArg = ''trace-close''"

definition GenerateBoolArgs :: "Config \<Rightarrow> string" where
  "GenerateBoolArgs c =
     (let sf = [];
          sf = (if Stmt c then sf @ [stmtArg] else sf);
          sf = (if Profile c then sf @ [profileArg] else sf);
          sf = (if Row c then sf @ [rowArg] else sf);
          sf = (if Close c then sf @ [closeArg] else sf)
      in ''--'' @ Join sf '' --'')"

section \<open>The transaction wrapper\<close>

text \<open>
  Go's \<^verbatim>\<open>error\<close> values; \<^verbatim>\<open>nil\<close> is \<open>None\<close> of \<open>error option\<close>.
\<close>

datatype error = Err string

text \<open>
  A Go call either returns a value or panics with a value. The panic values are
  arbitrary (\<^verbatim>\<open>interface{}\<close>), hence a type parameter.
\<close>

datatype ('a, 'p) exit = Return 'a | Panic 'p

text \<open>
  \<^verbatim>\<open>*sql.Tx\<close> and \<^verbatim>\<open>*sql.DB\<close> come from the standard library's
  \<^verbatim>\<open>database/sql\<close>. A handle is modelled by the methods this program calls on it,
  each a transformer of the state \<open>'s\<close> of the world outside the program (the
  database with its open transactions) that also yields the method's result.
  \<^verbatim>\<open>db.Begin()\<close> yields either the error or the transaction handle.
\<close>

record 's Tx =
  Commit :: "'s \<Rightarrow> error option \<times> 's"
  Rollback :: "'s \<Rightarrow> error option \<times> 's"

record 's DB =
  Begin :: "'s \<Rightarrow> (error + 's Tx) \<times> 's"
  Ping :: "'s \<Rightarrow> error option \<times> 's"
  CloseDB :: "'s \<Rightarrow> error option \<times> 's"

text \<open>
  The calls that \<^verbatim>\<open>txWrap\<close> makes on the transaction handle are recorded in the
  order in which they are made, so that what was attempted can be read off the
  result.
\<close>

datatype tx_call = CallCommit | CallRollback

text \<open>
  The deferred closure of \<^verbatim>\<open>txWrap\<close>. It reads the local \<^verbatim>\<open>panicked\<close>, the
  global \<^verbatim>\<open>rollbackAlways\<close> and the handle \<^verbatim>\<open>tx\<close>, and may assign the named
  result \<^verbatim>\<open>err\<close>. The result of \<^verbatim>\<open>tx.Rollback()\<close> is not used in either place;
  only \<^verbatim>\<open>tx.Commit()\<close> is assigned to \<^verbatim>\<open>err\<close>. The closure does not call
  \<^verbatim>\<open>recover()\<close>.

  The global \<^verbatim>\<open>rollbackAlways\<close> is written only by the flag parsing in
  \<^verbatim>\<open>main\<close>; it is a parameter here.
\<close>

definition txWrap_deferred ::
  "bool \<Rightarrow> 's Tx \<Rightarrow> bool \<Rightarrow> error option \<Rightarrow> 's \<Rightarrow> tx_call list \<times> error option \<times> 's" where
  "txWrap_deferred rollbackAlways tx panicked err s =
     (if panicked then
        (let (_, s') = Rollback tx s in ([CallRollback], err, s'))
      else if rollbackAlways then
        (let (_, s') = Rollback tx s in ([CallRollback], err, s'))
      else
        (let (e, s') = Commit tx s in ([CallCommit], e, s')))"

text \<open>
  \<^verbatim>\<open>func txWrap(db *sql.DB, txFunc func(*sql.Tx)) (err error)\<close>.
  When \<^verbatim>\<open>db.Begin()\<close> fails the function returns before the \<^verbatim>\<open>defer\<close>
  statement is reached. Otherwise the deferred closure runs on the way out: after
  \<^verbatim>\<open>return nil\<close> has set \<^verbatim>\<open>err\<close> with \<^verbatim>\<open>panicked\<close> false, or while the
  panic of \<^verbatim>\<open>txFunc\<close> unwinds with \<^verbatim>\<open>panicked\<close> still true; as nothing
  recovers, that panic goes on to the caller. \<^verbatim>\<open>txFunc\<close> is any function that
  returns or panics, moving the outside world from one state to another.

  The result is the list of calls made on the handle, the way \<^verbatim>\<open>txWrap\<close> ends
  (the returned \<^verbatim>\<open>err\<close> or the panic) and the state of the world.
\<close>

definition txWrap ::
  "bool \<Rightarrow> 's DB \<Rightarrow> ('s Tx \<Rightarrow> 's \<Rightarrow> (unit, 'p) exit \<times> 's) \<Rightarrow> 's
     \<Rightarrow> tx_call list \<times> (error option, 'p) exit \<times> 's" where
  "txWrap rollbackAlways db txFunc s =
     (let panicked = True in
      case Begin db s of
        (Inl txErr, s1) \<Rightarrow> ([], Return (Some txErr), s1)
      | (Inr tx, s1) \<Rightarrow>
          (case txFunc tx s1 of
             (Panic p, s2) \<Rightarrow>
               (let (calls, _, s3) = txWrap_deferred rollbackAlways tx panicked None s2
                in (calls, Panic p, s3))
           | (Return _, s2) \<Rightarrow>
               (let panicked = False;
                    err = None;
                    (calls, err, s3) = txWrap_deferred rollbackAlways tx panicked err s2
                in (calls, Return err, s3))))"

section \<open>Formatted output\<close>

text \<open>
  \<^verbatim>\<open>fmt.Printf\<close>, \<^verbatim>\<open>fmt.Sprintf\<close> and \<^verbatim>\<open>fmt.Println\<close> are the standard
  library's. What a verb prints for an argument is not decided here: a formatted text
  is the sequence of the literal parts of the format string and of the verbs, each
  with the argument it is applied to. A string argument of \<^verbatim>\<open>%s\<close> that was itself
  built by \<^verbatim>\<open>Sprintf\<close> (or is a literal) is spliced in as the text it is.
\<close>

text \<open>
  Modelled from the spec: the struct \<^verbatim>\<open>sqlite3.Error\<close> of the driver package, of
  which \<^verbatim>\<open>traceCallback\<close> reads the basic and the extended error code.
\<close>

record DBError =
  Code :: int
  ExtendedCode :: int

datatype arg = AString string | AInt int | AUint nat | AError error | ADBError DBError

datatype piece = Lit string | Verb string arg

type_synonym formatted = "piece list"

definition newline :: string where
  "newline = [CHR 0x0A]"

definition Println :: "string \<Rightarrow> formatted" where
  "Println msg = [Lit msg, Lit newline]"

section \<open>The trace callback\<close>

text \<open>
  Modelled from the spec: the struct \<^verbatim>\<open>sqlite3.TraceInfo\<close> is declared in the driver
  package \<^verbatim>\<open>github.com/gimpldo/go-sqlite3\<close>, not in this repository. The record has
  the fields that \<^verbatim>\<open>traceCallback\<close> reads, which are the ones the specification
  lists for a trace event: event code, connection handle, statement handle, raw
  statement or trigger text, expanded text (empty when there is none), elapsed run
  time and the error.
\<close>

record TraceInfo =
  EventCode :: nat
  ConnHandle :: nat
  StmtHandle :: nat
  StmtOrTrigger :: string
  ExpandedSQL :: string
  RunTimeNanosec :: int
  DBError :: DBError

text \<open>The local variable \<^verbatim>\<open>dbErrText\<close> of \<^verbatim>\<open>traceCallback\<close>.\<close>

definition dbErrText :: "TraceInfo \<Rightarrow> formatted" where
  "dbErrText info =
     (if Code (DBError info) \<noteq> 0 \<or> ExtendedCode (DBError info) \<noteq> 0
      then [Lit ''; DB error: '', Verb ''%#v'' (ADBError (DBError info))]
      else [Lit ''.''])"

text \<open>The local variable \<^verbatim>\<open>expandedText\<close> of \<^verbatim>\<open>traceCallback\<close>.\<close>

definition expandedText :: "TraceInfo \<Rightarrow> formatted" where
  "expandedText info =
     (if ExpandedSQL info \<noteq> [] then
        (if ExpandedSQL info = StmtOrTrigger info
         then [Lit '' no change when expanded'']
         else [Lit '' expanded {'', Verb ''%q'' (AString (ExpandedSQL info)), Lit ''}''])
      else [])"

text \<open>
  \<^verbatim>\<open>func traceCallback(info sqlite3.TraceInfo) int\<close>: the line it prints and the
  value it returns.
\<close>

definition traceCallback :: "TraceInfo \<Rightarrow> formatted \<times> int" where
  "traceCallback info =
     ([Lit ''Trace: ev 0x'', Verb ''%x'' (AUint (EventCode info)),
       Lit '', conn 0x'', Verb ''%x'' (AUint (ConnHandle info)),
       Lit '', stmt 0x'', Verb ''%x'' (AUint (StmtHandle info)),
       Lit '' {'', Verb ''%q'' (AString (StmtOrTrigger info)), Lit ''}'']
      @ expandedText info
      @ [Lit ''; '', Verb ''%d'' (AInt (RunTimeNanosec info)), Lit '' ns'']
      @ dbErrText info
      @ [Lit newline],
      0)"

section \<open>The program\<close>

text \<open>
  What \<^verbatim>\<open>main\<close> and \<^verbatim>\<open>dbMain\<close> themselves do to the outside: print a text,
  register a driver under a name (the connect hook of the registered driver sets the
  trace configuration, whose event mask and \<^verbatim>\<open>WantExpandedSQL\<close> are recorded), and
  open a database by driver name and file name.
\<close>

datatype 'w action =
    Print formatted
  | SqlRegister string 'w bool
  | SqlOpen string string

fun registeredMasks :: "'w action list \<Rightarrow> 'w list" where
  "registeredMasks [] = []"
| "registeredMasks (SqlRegister name m expanded # acts) = m # registeredMasks acts"
| "registeredMasks (a # acts) = registeredMasks acts"

fun openAttempts :: "'w action list \<Rightarrow> (string \<times> string) list" where
  "openAttempts [] = []"
| "openAttempts (SqlOpen driver filename # acts) = (driver, filename) # openAttempts acts"
| "openAttempts (a # acts) = openAttempts acts"

text \<open>
  The surroundings of \<^verbatim>\<open>dbMain\<close>: \<^verbatim>\<open>sql.Open\<close>, the values with which
  \<^verbatim>\<open>log.Panic(err)\<close> and \<^verbatim>\<open>log.Panicf("Transaction Wrapper error: %v\n", err)\<close>
  panic, and the functions that do the database work. The work functions use parts of
  \<^verbatim>\<open>database/sql\<close> (\<^verbatim>\<open>Exec\<close>, \<^verbatim>\<open>Prepare\<close>, \<^verbatim>\<open>Query\<close>, rows) that are outside
  what is verified here; each is taken as any function that returns or panics and
  changes the state of the outside world.
\<close>

record ('s, 'p) Env =
  sqlOpen :: "string \<Rightarrow> string \<Rightarrow> 's \<Rightarrow> (error + 's DB) \<times> 's"
  logPanic :: "error \<Rightarrow> 'p"
  logPanicf :: "error \<Rightarrow> 'p"
  dbSetup :: "'s DB \<Rightarrow> 's \<Rightarrow> (unit, 'p) exit \<times> 's"
  dbDoInsert :: "'s DB \<Rightarrow> 's \<Rightarrow> (unit, 'p) exit \<times> 's"
  dbDoInsertPrepared :: "'s DB \<Rightarrow> 's \<Rightarrow> (unit, 'p) exit \<times> 's"
  dbDoSelect :: "'s DB \<Rightarrow> 's \<Rightarrow> (unit, 'p) exit \<times> 's"
  dbDoSelectPrepared :: "'s DB \<Rightarrow> 's \<Rightarrow> (unit, 'p) exit \<times> 's"
  txDoInsert :: "'s Tx \<Rightarrow> 's \<Rightarrow> (unit, 'p) exit \<times> 's"
  txDoInsertPrepared :: "'s Tx \<Rightarrow> 's \<Rightarrow> (unit, 'p) exit \<times> 's"
  txDoSelect :: "'s Tx \<Rightarrow> 's \<Rightarrow> (unit, 'p) exit \<times> 's"
  txDoSelectPrepared :: "'s Tx \<Rightarrow> 's \<Rightarrow> (unit, 'p) exit \<times> 's"

text \<open>One statement after another: a panic of the first ends the sequence.\<close>

definition andThen ::
  "('s \<Rightarrow> (unit, 'p) exit \<times> 's) \<Rightarrow> ('s \<Rightarrow> ('a, 'p) exit \<times> 's) \<Rightarrow> 's \<Rightarrow> ('a, 'p) exit \<times> 's" where
  "andThen f g s = (case f s of (Panic p, s') \<Rightarrow> (Panic p, s') | (Return _, s') \<Rightarrow> g s')"

text \<open>
  \<^verbatim>\<open>err = db.Ping(); if err != nil { log.Panic(err) }\<close>
\<close>

definition pingOrPanic :: "('s, 'p) Env \<Rightarrow> 's DB \<Rightarrow> 's \<Rightarrow> (unit, 'p) exit \<times> 's" where
  "pingOrPanic env db s =
     (case Ping db s of
        (Some err, s') \<Rightarrow> (Panic (logPanic env err), s')
      | (None, s') \<Rightarrow> (Return (), s'))"

text \<open>
  \<^verbatim>\<open>err = txWrap(db, f); if err != nil { log.Panicf(...) }\<close>
\<close>

definition txWrapOrPanic ::
  "('s, 'p) Env \<Rightarrow> bool \<Rightarrow> 's DB \<Rightarrow> ('s Tx \<Rightarrow> 's \<Rightarrow> (unit, 'p) exit \<times> 's) \<Rightarrow> 's
     \<Rightarrow> (unit, 'p) exit \<times> 's" where
  "txWrapOrPanic env rollbackAlways db f s =
     (case txWrap rollbackAlways db f s of
        (_, Panic p, s') \<Rightarrow> (Panic p, s')
      | (_, Return (Some err), s') \<Rightarrow> (Panic (logPanicf env err), s')
      | (_, Return None, s') \<Rightarrow> (Return (), s'))"

text \<open>
  \<^verbatim>\<open>func dbMain(filename string) int\<close>. After a failed \<^verbatim>\<open>sql.Open\<close> it prints and
  returns 1. Otherwise \<^verbatim>\<open>db.Close()\<close> is deferred, so it runs on the way out, whether
  the statements that follow return or panic.
\<close>

definition dbMain ::
  "('s, 'p) Env \<Rightarrow> bool \<Rightarrow> string \<Rightarrow> 's \<Rightarrow> 'w action list \<times> (int, 'p) exit \<times> 's" where
  "dbMain env rollbackAlways filename s =
     (case sqlOpen env ''sqlite3_tracing'' filename s of
        (Inl err, s1) \<Rightarrow>
          ([SqlOpen ''sqlite3_tracing'' filename,
            Print [Lit ''Failed to open database '', Lit [CHR 0x27],
                   Verb ''%s'' (AString filename), Lit [CHR 0x27], Lit '': '',
                   Verb ''%#+v'' (AError err), Lit newline]],
           Return 1, s1)
      | (Inr db, s1) \<Rightarrow>
          (let (r, s2) =
                 (andThen (pingOrPanic env db)
                 (andThen (dbSetup env db)
                 (andThen (dbDoInsert env db)
                 (andThen (txWrapOrPanic env rollbackAlways db (txDoInsert env))
                 (andThen (dbDoInsertPrepared env db)
                 (andThen (txWrapOrPanic env rollbackAlways db (txDoInsertPrepared env))
                 (andThen (dbDoSelect env db)
                 (andThen (txWrapOrPanic env rollbackAlways db (txDoSelect env))
                 (andThen (dbDoSelectPrepared env db)
                 (andThen (txWrapOrPanic env rollbackAlways db (txDoSelectPrepared env))
                 (\<lambda>s. (Return 0, s)))))))))))) s1;
               (_, s3) = CloseDB db s2
           in ([SqlOpen ''sqlite3_tracing'' filename], r, s3)))"

text \<open>
  The variables that the flags fill, with the values they have when
  \<^verbatim>\<open>flag.Parse()\<close> has returned: the locals \<^verbatim>\<open>dbFilename\<close>, \<^verbatim>\<open>maskStr\<close> and
  \<^verbatim>\<open>maskConf\<close> of \<^verbatim>\<open>main\<close> (the last one set by the four boolean flags), and
  the globals \<^verbatim>\<open>noteTextPattern\<close>, \<^verbatim>\<open>nRows\<close> and \<^verbatim>\<open>rollbackAlways\<close>. The flag
  package is the standard library's; \<^verbatim>\<open>main\<close> is modelled from the point where
  \<^verbatim>\<open>flag.Parse()\<close> has returned.
\<close>

record CommandLine =
  dbFilename :: string
  maskStr :: string
  maskConf :: Config
  noteTextPattern :: string
  nRows :: int
  rollbackAlways :: bool

text \<open>
  A Go program ends with \<^verbatim>\<open>os.Exit(code)\<close> or with a panic that nothing recovers.
\<close>

datatype 'p ending = Exit int | Crash 'p

text \<open>
  \<^verbatim>\<open>func main()\<close>. The connect hook of the registered driver reads
  \<^verbatim>\<open>maskConf\<close>, which is not assigned after \<^verbatim>\<open>DecodeStringArg\<close>.
\<close>

definition main ::
  "'a::len word TraceConsts \<Rightarrow> ('s, 'p) Env \<Rightarrow> CommandLine \<Rightarrow> 's
     \<Rightarrow> 'a word action list \<times> 'p ending \<times> 's" where
  "main k env cl s =
     (let conf = DecodeStringArg (maskConf cl) (maskStr cl);
          startup =
            [Print [Lit ''Short form of mask: {'',
                    Verb ''%s'' (AString (GenerateStringArg conf)), Lit ''}'', Lit newline],
             Print [Lit ''Long form of mask (separate flags): {'',
                    Verb ''%s'' (AString (GenerateBoolArgs conf)), Lit ''}'', Lit newline],
             Print [Lit ''Numeric mask: 0x'',
                    Verb ''%x'' (AUint (unat (EventMask k conf))), Lit newline],
             SqlRegister ''sqlite3_tracing'' (EventMask k conf) True]
      in if dbFilename cl = [] then
           (startup @ [Print (Println ''SQLite database filename not specified. Use --db=...'')],
            Exit 3, s)
         else
           (case dbMain env (rollbackAlways cl) (dbFilename cl) s of
              (acts, Return code, s') \<Rightarrow> (startup @ acts, Exit code, s')
            | (acts, Panic p, s') \<Rightarrow> (startup @ acts, Crash p, s')))"

section \<open>Concrete inputs\<close>

text \<open>
  The inputs at which the theorems below are instantiated. The outside world is a pair
  of counters: how often \<^verbatim>\<open>Commit\<close> and how often \<^verbatim>\<open>Rollback\<close> have been called
  on a transaction handle. The handle \<open>countingTx\<close> counts each call and answers with
  a given error (or \<^verbatim>\<open>nil\<close>).
\<close>

definition countingTx :: "error option \<Rightarrow> error option \<Rightarrow> (nat \<times> nat) Tx" where
  "countingTx commitErr rollbackErr =
     \<lparr>Commit = (\<lambda>(commits, rollbacks). (commitErr, (Suc commits, rollbacks))),
      Rollback = (\<lambda>(commits, rollbacks). (rollbackErr, (commits, Suc rollbacks)))\<rparr>"

definition countingDB :: "error option \<Rightarrow> error option \<Rightarrow> (nat \<times> nat) DB" where
  "countingDB commitErr rollbackErr =
     \<lparr>Begin = (\<lambda>s. (Inr (countingTx commitErr rollbackErr), s)),
      Ping = (\<lambda>s. (None, s)),
      CloseDB = (\<lambda>s. (None, s))\<rparr>"

text \<open>A database on which no transaction can be begun.\<close>

definition brokenDB :: "(nat \<times> nat) DB" where
  "brokenDB =
     \<lparr>Begin = (\<lambda>s. (Inl (Err ''cannot begin''), s)),
      Ping = (\<lambda>s. (None, s)),
      CloseDB = (\<lambda>s. (None, s))\<rparr>"

text \<open>A unit of work that returns, and one that panics.\<close>

definition txReturns ::
  "(nat \<times> nat) Tx \<Rightarrow> nat \<times> nat \<Rightarrow> (unit, string) exit \<times> (nat \<times> nat)" where
  "txReturns tx s = (Return (), s)"

definition txPanics ::
  "(nat \<times> nat) Tx \<Rightarrow> nat \<times> nat \<Rightarrow> (unit, string) exit \<times> (nat \<times> nat)" where
  "txPanics tx s = (Panic ''insert failed'', s)"

text \<open>
  The values of SQLite's \<^verbatim>\<open>SQLITE_TRACE_STMT\<close>, \<^verbatim>\<open>SQLITE_TRACE_PROFILE\<close>,
  \<^verbatim>\<open>SQLITE_TRACE_ROW\<close> and \<^verbatim>\<open>SQLITE_TRACE_CLOSE\<close>, on a 64-bit platform.
\<close>

definition sqliteTraceConsts :: "64 word TraceConsts" where
  "sqliteTraceConsts = TraceConsts 1 2 4 8"

definition workReturns :: "(nat \<times> nat) DB \<Rightarrow> nat \<times> nat \<Rightarrow> (unit, string) exit \<times> (nat \<times> nat)" where
  "workReturns db s = (Return (), s)"

definition errorMessage :: "error \<Rightarrow> string" where
  "errorMessage e = (case e of Err msg \<Rightarrow> msg)"

definition countingEnv :: "(nat \<times> nat, string) Env" where
  "countingEnv =
     \<lparr>sqlOpen = (\<lambda>driver filename s. (Inr (countingDB None None), s)),
      logPanic = errorMessage,
      logPanicf = (\<lambda>e. ''Transaction Wrapper error: '' @ errorMessage e),
      dbSetup = workReturns,
      dbDoInsert = workReturns,
      dbDoInsertPrepared = workReturns,
      dbDoSelect = workReturns,
      dbDoSelectPrepared = workReturns,
      txDoInsert = txReturns,
      txDoInsertPrepared = txReturns,
      txDoSelect = txReturns,
      txDoSelectPrepared = txReturns\<rparr>"

text \<open>
  A command line without \<^verbatim>\<open>-db\<close>, with \<^verbatim>\<open>-trace-stmt\<close> and
  \<^verbatim>\<open>-trace-mask=px\<close>; and the same with \<^verbatim>\<open>-db=test.db\<close>.
\<close>

definition noFilename :: CommandLine where
  "noFilename =
     \<lparr>dbFilename = [], maskStr = ''px'',
      maskConf = \<lparr>Stmt = True, Profile = False, Row = False, Close = False\<rparr>,
      noteTextPattern = [], nRows = 4, rollbackAlways = False\<rparr>"

definition withFilename :: CommandLine where
  "withFilename = noFilename\<lparr>dbFilename := ''test.db''\<rparr>"

text \<open>
  A trace event of a statement without parameters, whose expanded text is the
  statement text itself, and one with an error code.
\<close>

definition unchangedInfo :: TraceInfo where
  "unchangedInfo =
     \<lparr>EventCode = 1, ConnHandle = 4096, StmtHandle = 8192,
      StmtOrTrigger = ''DROP TABLE IF EXISTS t1'', ExpandedSQL = ''DROP TABLE IF EXISTS t1'',
      RunTimeNanosec = 0, DBError = \<lparr>Code = 0, ExtendedCode = 0\<rparr>\<rparr>"

definition failedInfo :: TraceInfo where
  "failedInfo =
     \<lparr>EventCode = 2, ConnHandle = 4096, StmtHandle = 8192,
      StmtOrTrigger = ''INSERT INTO t1 (seq_num, note) VALUES (?, ?)'',
      ExpandedSQL = ''INSERT INTO t1 (seq_num, note) VALUES (0, NULL)'',
      RunTimeNanosec = 1500, DBError = \<lparr>Code = 19, ExtendedCode = 1299\<rparr>\<rparr>"

section \<open>Properties of the mask configuration\<close>

lemma DecodeStringArg_fields:
  "DecodeStringArg d s =
     \<lparr>Stmt = (Stmt d \<or> CHR ''s'' \<in> set s), Profile = (Profile d \<or> CHR ''p'' \<in> set s),
      Row = (Row d \<or> CHR ''r'' \<in> set s), Close = (Close d \<or> CHR ''c'' \<in> set s)\<rparr>"
proof (induction s arbitrary: d)
  case Nil
  show ?case by simp
next
  case (Cons c s)
  show ?case
    unfolding DecodeStringArg.simps Cons.IH
    by (auto simp: decodeChar_def)
qed

lemma DecodeStringArg_GenerateStringArg:
  "DecodeStringArg zeroConfig (GenerateStringArg c) = c"
  by (cases c) (auto simp: GenerateStringArg_def zeroConfig_def decodeChar_def Let_def)

lemma DecodeStringArg_filter:
  "DecodeStringArg dest (filter (\<lambda>c. c \<in> {CHR ''s'', CHR ''p'', CHR ''r'', CHR ''c''}) s) = DecodeStringArg dest s"
  by (induction s arbitrary: dest) (auto simp: decodeChar_def)

lemma EventMask_explicit:
  "EventMask k c = (if Stmt c then TraceStmt k else 0) OR (if Profile c then TraceProfile k else 0)
      OR (if Row c then TraceRow k else 0) OR (if Close c then TraceClose k else 0)"
  by (simp add: EventMask_def Let_def or.assoc)

lemma if_disj_or:
  "(if a \<or> b then x else 0) = (if a then x else 0) OR (if b then x else (0::'a::len word))"
  by simp

lemma or4_shuffle:
  "(a1 OR b1) OR (a2 OR b2) OR (a3 OR b3) OR (a4 OR b4) =
   (a1 OR a2 OR a3 OR a4) OR (b1 OR b2 OR b3 OR (b4::'a::len word))"
  by (simp only: or.assoc or.commute or.left_commute)

lemma EventMask_union:
  "EventMask k (DecodeStringArg d s) = EventMask k d OR EventMask k (DecodeStringArg zeroConfig s)"
proof -
  have z: "Stmt zeroConfig = False" "Profile zeroConfig = False" "Row zeroConfig = False"
    "Close zeroConfig = False"
    by (simp_all add: zeroConfig_def)
  show ?thesis
    unfolding EventMask_explicit DecodeStringArg_fields [of d] DecodeStringArg_fields [of zeroConfig]
    by (simp only: Config.simps z simp_thms if_disj_or or4_shuffle)
qed

lemma registeredMasks_append:
  "registeredMasks (xs @ ys) = registeredMasks xs @ registeredMasks ys"
  by (induction xs rule: registeredMasks.induct) simp_all

lemma openAttempts_append:
  "openAttempts (xs @ ys) = openAttempts xs @ openAttempts ys"
  by (induction xs rule: openAttempts.induct) simp_all

lemma registeredMasks_dbMain:
  "dbMain env always filename s = (acts, r, s') \<Longrightarrow> registeredMasks acts = []"
  by (auto simp: dbMain_def split: prod.splits sum.splits)

lemma openAttempts_dbMain:
  "dbMain env always filename s = (acts, r, s') \<Longrightarrow>
   openAttempts acts = [(''sqlite3_tracing'', filename)]"
  by (auto simp: dbMain_def split: prod.splits sum.splits)

lemma main_registers:
  "registeredMasks (fst (main k env cl s)) = [EventMask k (DecodeStringArg (maskConf cl) (maskStr cl))]"
proof (cases "dbFilename cl = []")
  case True
  then show ?thesis by (simp add: main_def Let_def Println_def)
next
  case False
  obtain acts :: "'a word action list" and r s'
    where d: "dbMain env (rollbackAlways cl) (dbFilename cl) s = (acts, r, s')"
    by (rule prod_cases3)
  have "registeredMasks acts = []"
    by (rule registeredMasks_dbMain [OF d])
  with False d show ?thesis
    by (cases r) (simp_all add: main_def Let_def registeredMasks_append)
qed

lemma main_opens:
  assumes "dbFilename cl \<noteq> []"
  shows "openAttempts (fst (main k env cl s)) = [(''sqlite3_tracing'', dbFilename cl)]"
proof -
  obtain acts :: "'a word action list" and r s'
    where d: "dbMain env (rollbackAlways cl) (dbFilename cl) s = (acts, r, s')"
    by (rule prod_cases3)
  have "openAttempts acts = [(''sqlite3_tracing'', dbFilename cl)]"
    by (rule openAttempts_dbMain [OF d])
  with assms d show ?thesis
    by (cases r) (simp_all add: main_def Let_def openAttempts_append)
qed


text \<open>
  A run of the whole program on the counting world: each of the four calls of
  \<^verbatim>\<open>txWrap\<close> in \<^verbatim>\<open>dbMain\<close> commits once, or rolls back once when the
  \<^verbatim>\<open>-rollback\<close> flag is given.
\<close>

lemma main_run_commits:
  "snd (main sqliteTraceConsts countingEnv withFilename (0, 0)) = (Exit 0, (4, 0))"
  by (simp add: main_def dbMain_def withFilename_def noFilename_def countingEnv_def
        countingDB_def countingTx_def txReturns_def workReturns_def andThen_def
        pingOrPanic_def txWrapOrPanic_def txWrap_def txWrap_deferred_def Let_def)

lemma main_run_rolls_back:
  "snd (main sqliteTraceConsts countingEnv (withFilename\<lparr>rollbackAlways := True\<rparr>) (0, 0)) =
     (Exit 0, (0, 4))"
  by (simp add: main_def dbMain_def withFilename_def noFilename_def countingEnv_def
        countingDB_def countingTx_def txReturns_def workReturns_def andThen_def
        pingOrPanic_def txWrapOrPanic_def txWrap_def txWrap_deferred_def Let_def)

text \<open>
  C5. For every combination of the four flags, decoding the short string form of a
  configuration into the all-false configuration and encoding the result gives the
  same bitmask as encoding the configuration itself, whatever the four bit constants
  are.
\<close>

theorem EventMask_roundtrip:
  "EventMask k (DecodeStringArg zeroConfig (GenerateStringArg c)) = EventMask k c"
  by (simp add: DecodeStringArg_GenerateStringArg)

text \<open>
  C6. \<^verbatim>\<open>DecodeStringArg\<close> yields a configuration for every string. Started from the
  all-false configuration, each flag of the result is set exactly when its letter
  occurs in the string, so the mask is the union of the bits of the letters that
  occur; and the characters other than \<open>s\<close>, \<open>p\<close>, \<open>r\<close>, \<open>c\<close> can be removed
  from the string without changing the result, from any starting configuration.
\<close>

theorem DecodeStringArg_recognized_only:
  "DecodeStringArg zeroConfig s =
     \<lparr>Stmt = CHR ''s'' \<in> set s, Profile = CHR ''p'' \<in> set s,
      Row = CHR ''r'' \<in> set s, Close = CHR ''c'' \<in> set s\<rparr>
   \<and> EventMask k (DecodeStringArg zeroConfig s) =
       (if CHR ''s'' \<in> set s then TraceStmt k else 0)
       OR (if CHR ''p'' \<in> set s then TraceProfile k else 0)
       OR (if CHR ''r'' \<in> set s then TraceRow k else 0)
       OR (if CHR ''c'' \<in> set s then TraceClose k else 0)
   \<and> DecodeStringArg dest (filter (\<lambda>c. c \<in> {CHR ''s'', CHR ''p'', CHR ''r'', CHR ''c''}) s) =
       DecodeStringArg dest s"
proof -
  have f: "DecodeStringArg zeroConfig s =
     \<lparr>Stmt = CHR ''s'' \<in> set s, Profile = CHR ''p'' \<in> set s,
      Row = CHR ''r'' \<in> set s, Close = CHR ''c'' \<in> set s\<rparr>"
    unfolding DecodeStringArg_fields [of zeroConfig] by (simp add: zeroConfig_def)
  have m: "EventMask k (DecodeStringArg zeroConfig s) =
       (if CHR ''s'' \<in> set s then TraceStmt k else 0)
       OR (if CHR ''p'' \<in> set s then TraceProfile k else 0)
       OR (if CHR ''r'' \<in> set s then TraceRow k else 0)
       OR (if CHR ''c'' \<in> set s then TraceClose k else 0)"
    unfolding f EventMask_explicit by (simp only: Config.simps)
  from f m DecodeStringArg_filter [of dest s] show ?thesis by blast
qed

theorem DecodeStringArg_recognized_only_witness:
  "DecodeStringArg zeroConfig ''xspq r'' = \<lparr>Stmt = True, Profile = True, Row = True, Close = False\<rparr>
   \<and> EventMask sqliteTraceConsts (DecodeStringArg zeroConfig ''xspq r'') = 7
   \<and> DecodeStringArg zeroConfig ''spr'' = DecodeStringArg zeroConfig ''xspq r''"
  using DecodeStringArg_recognized_only [of "''xspq r''" sqliteTraceConsts zeroConfig]
  by (simp add: sqliteTraceConsts_def decodeChar_def zeroConfig_def EventMask_def)

section \<open>Properties of the transaction wrapper\<close>

text \<open>
  When \<^verbatim>\<open>db.Begin()\<close> fails, \<^verbatim>\<open>txWrap\<close> returns the error of \<^verbatim>\<open>Begin\<close> and
  calls neither \<^verbatim>\<open>Commit\<close> nor \<^verbatim>\<open>Rollback\<close>: both counters stay at zero.
\<close>

theorem txWrap_begin_fails_no_call:
  "txWrap False brokenDB txReturns (0, 0) = ([], Return (Some (Err ''cannot begin'')), (0, 0))"
  by (simp add: txWrap_def brokenDB_def)

text \<open>
  C1, amended. In every invocation of \<^verbatim>\<open>txWrap\<close> in which \<^verbatim>\<open>db.Begin()\<close> succeeds,
  exactly one call is made on the transaction handle, and it is \<^verbatim>\<open>Commit\<close> or
  \<^verbatim>\<open>Rollback\<close>: whether the unit of work returns or panics, and whatever the value of
  the always-rollback switch. The outside world ends in the state in which that one
  call, made in the state the unit of work left, leaves it: either \<^verbatim>\<open>Commit\<close> alone
  has acted on the handle, or \<^verbatim>\<open>Rollback\<close> alone.
\<close>

theorem txWrap_exactly_one:
  assumes "Begin db s = (Inr tx, s1)" and "txFunc tx s1 = (r, s2)"
  shows "(fst (txWrap always db txFunc s) = [CallCommit]
          \<and> snd (snd (txWrap always db txFunc s)) = snd (Commit tx s2))
       \<or> (fst (txWrap always db txFunc s) = [CallRollback]
          \<and> snd (snd (txWrap always db txFunc s)) = snd (Rollback tx s2))"
proof (cases r)
  case (Return u)
  with assms show ?thesis
    by (cases always) (simp_all add: txWrap_def txWrap_deferred_def split: prod.splits)
next
  case (Panic p)
  with assms show ?thesis
    by (simp add: txWrap_def txWrap_deferred_def split: prod.splits)
qed

theorem txWrap_exactly_one_witness:
  "Begin (countingDB None None) (0, 0) = (Inr (countingTx None None), (0, 0))
   \<and> txPanics (countingTx None None) (0, 0) = (Panic ''insert failed'', (0, 0))
   \<and> fst (txWrap True (countingDB None None) txPanics (0, 0)) = [CallRollback]
   \<and> snd (snd (txWrap True (countingDB None None) txPanics (0, 0))) = (0, 1)
   \<and> snd (Rollback (countingTx None None) (0, 0)) = (0, 1)
   \<and> snd (Commit (countingTx None None) (0, 0)) = (1, 0)"
proof -
  have b: "Begin (countingDB None None) (0, 0) = (Inr (countingTx None None), (0, 0))"
    by (simp add: countingDB_def)
  have f: "txPanics (countingTx None None) (0, 0) = (Panic ''insert failed'', (0, 0))"
    by (simp add: txPanics_def)
  have rb: "snd (Rollback (countingTx None None) (0, 0)) = (0, 1)"
    by (simp add: countingTx_def)
  have cm: "snd (Commit (countingTx None None) (0, 0)) = (1, 0)"
    by (simp add: countingTx_def)
  have one: "(fst (txWrap True (countingDB None None) txPanics (0, 0)) = [CallCommit]
          \<and> snd (snd (txWrap True (countingDB None None) txPanics (0, 0))) = (1, 0))
       \<or> (fst (txWrap True (countingDB None None) txPanics (0, 0)) = [CallRollback]
          \<and> snd (snd (txWrap True (countingDB None None) txPanics (0, 0))) = (0, 1))"
    using txWrap_exactly_one [where txFunc = txPanics and always = True, OF b f]
    by (simp only: rb cm)
  have no_commit: "fst (txWrap True (countingDB None None) txPanics (0, 0)) \<noteq> [CallCommit]"
    by (simp add: txWrap_def txWrap_deferred_def countingDB_def countingTx_def txPanics_def)
  from one no_commit b f rb cm show ?thesis by blast
qed

text \<open>
  C2. If the unit of work returns and the always-rollback switch is false, \<^verbatim>\<open>txWrap\<close>
  calls \<^verbatim>\<open>Commit\<close> and nothing else on the handle, and returns what \<^verbatim>\<open>Commit\<close>
  returned: \<^verbatim>\<open>nil\<close> when the commit succeeded, the commit's error when it failed.
\<close>

theorem txWrap_commits:
  assumes "Begin db s = (Inr tx, s1)" and "txFunc tx s1 = (Return (), s2)" and "\<not> always"
  shows "txWrap always db txFunc s =
           ([CallCommit], Return (fst (Commit tx s2)), snd (Commit tx s2))"
  using assms
  by (simp add: txWrap_def txWrap_deferred_def split: prod.splits)

theorem txWrap_commits_witness:
  "Begin (countingDB (Some (Err ''disk full'')) None) (0, 0) =
     (Inr (countingTx (Some (Err ''disk full'')) None), (0, 0))
   \<and> txReturns (countingTx (Some (Err ''disk full'')) None) (0, 0) = (Return (), (0, 0))
   \<and> txWrap False (countingDB (Some (Err ''disk full'')) None) txReturns (0, 0) =
       ([CallCommit], Return (Some (Err ''disk full'')), (1, 0))"
proof -
  have b: "Begin (countingDB (Some (Err ''disk full'')) None) (0, 0) =
     (Inr (countingTx (Some (Err ''disk full'')) None), (0, 0))"
    by (simp add: countingDB_def)
  have f: "txReturns (countingTx (Some (Err ''disk full'')) None) (0, 0) = (Return (), (0, 0))"
    by (simp add: txReturns_def)
  have n: "\<not> False" by simp
  from txWrap_commits [where txFunc = txReturns and always = False, OF b f n] b f
  show ?thesis
    by (simp add: countingTx_def)
qed

text \<open>
  C3. If the unit of work returns and the always-rollback switch is true, \<^verbatim>\<open>txWrap\<close>
  calls \<^verbatim>\<open>Rollback\<close> and nothing else on the handle, so the transaction is rolled back
  and not committed, although the unit of work reported no error.
\<close>

theorem txWrap_forced_rollback:
  assumes "Begin db s = (Inr tx, s1)" and "txFunc tx s1 = (Return (), s2)" and "always"
  shows "txWrap always db txFunc s = ([CallRollback], Return None, snd (Rollback tx s2))"
  using assms
  by (simp add: txWrap_def txWrap_deferred_def split: prod.splits)

theorem txWrap_forced_rollback_witness:
  "Begin (countingDB None None) (0, 0) = (Inr (countingTx None None), (0, 0))
   \<and> txReturns (countingTx None None) (0, 0) = (Return (), (0, 0))
   \<and> txWrap True (countingDB None None) txReturns (0, 0) = ([CallRollback], Return None, (0, 1))"
proof -
  have b: "Begin (countingDB None None) (0, 0) = (Inr (countingTx None None), (0, 0))"
    by (simp add: countingDB_def)
  have f: "txReturns (countingTx None None) (0, 0) = (Return (), (0, 0))"
    by (simp add: txReturns_def)
  from txWrap_forced_rollback [where txFunc = txReturns and always = True, OF b f TrueI] b f
  show ?thesis
    by (simp add: countingTx_def)
qed

text \<open>
  C4. If the unit of work panics, \<^verbatim>\<open>txWrap\<close> calls \<^verbatim>\<open>Rollback\<close> and nothing else on
  the handle, and then ends with the panic of the unit of work, with the same panic
  value: it does not return an error value in its place.
\<close>

theorem txWrap_panic_propagates:
  assumes "Begin db s = (Inr tx, s1)" and "txFunc tx s1 = (Panic p, s2)"
  shows "txWrap always db txFunc s = ([CallRollback], Panic p, snd (Rollback tx s2))"
  using assms
  by (simp add: txWrap_def txWrap_deferred_def split: prod.splits)

theorem txWrap_panic_propagates_witness:
  "Begin (countingDB None None) (0, 0) = (Inr (countingTx None None), (0, 0))
   \<and> txPanics (countingTx None None) (0, 0) = (Panic ''insert failed'', (0, 0))
   \<and> txWrap False (countingDB None None) txPanics (0, 0) =
       ([CallRollback], Panic ''insert failed'', (0, 1))"
proof -
  have b: "Begin (countingDB None None) (0, 0) = (Inr (countingTx None None), (0, 0))"
    by (simp add: countingDB_def)
  have f: "txPanics (countingTx None None) (0, 0) = (Panic ''insert failed'', (0, 0))"
    by (simp add: txPanics_def)
  from txWrap_panic_propagates [where txFunc = txPanics and always = False, OF b f] b f
  show ?thesis
    by (simp add: countingTx_def)
qed



section \<open>Properties of the trace callback\<close>

text \<open>
  For an event whose expanded text is the statement text, the printed line is not
  without an annotation after the statement: it carries the note
  \<^verbatim>\<open> no change when expanded\<close>.
\<close>

theorem traceCallback_unchanged_note:
  "ExpandedSQL unchangedInfo = StmtOrTrigger unchangedInfo
   \<and> expandedText unchangedInfo \<noteq> []
   \<and> fst (traceCallback unchangedInfo) =
       [Lit ''Trace: ev 0x'', Verb ''%x'' (AUint 1), Lit '', conn 0x'',
        Verb ''%x'' (AUint 4096), Lit '', stmt 0x'', Verb ''%x'' (AUint 8192),
        Lit '' {'', Verb ''%q'' (AString ''DROP TABLE IF EXISTS t1''), Lit ''}'',
        Lit '' no change when expanded'',
        Lit ''; '', Verb ''%d'' (AInt 0), Lit '' ns'', Lit ''.'', Lit newline]"
  by (simp add: traceCallback_def expandedText_def dbErrText_def unchangedInfo_def)

text \<open>
  C8, amended. For every trace event the printed line consists of the event code and
  the handles, the quoted statement text, the expansion annotation, the elapsed
  nanoseconds, the error annotation and a line end. The expansion annotation is empty
  exactly when the event has no expanded text; it is the fixed note
  \<^verbatim>\<open> no change when expanded\<close>, which the line then contains, exactly when the
  expanded text is not empty and is the statement text; and it shows the quoted
  expanded text after \<^verbatim>\<open> expanded {\<close>, which the line then contains, exactly when
  the expanded text is not empty and differs from the statement text. The error
  annotation shows the error after \<^verbatim>\<open>; DB error: \<close>, which the line then contains,
  exactly when the basic or the extended error code is not zero, and is a full stop
  otherwise.
\<close>

theorem traceCallback_annotations:
  "fst (traceCallback info) =
     [Lit ''Trace: ev 0x'', Verb ''%x'' (AUint (EventCode info)),
      Lit '', conn 0x'', Verb ''%x'' (AUint (ConnHandle info)),
      Lit '', stmt 0x'', Verb ''%x'' (AUint (StmtHandle info)),
      Lit '' {'', Verb ''%q'' (AString (StmtOrTrigger info)), Lit ''}'']
     @ expandedText info
     @ [Lit ''; '', Verb ''%d'' (AInt (RunTimeNanosec info)), Lit '' ns'']
     @ dbErrText info @ [Lit newline]
   \<and> snd (traceCallback info) = 0
   \<and> (expandedText info = []) = (ExpandedSQL info = [])
   \<and> (expandedText info = [Lit '' no change when expanded'']) =
       (ExpandedSQL info \<noteq> [] \<and> ExpandedSQL info = StmtOrTrigger info)
   \<and> (expandedText info =
         [Lit '' expanded {'', Verb ''%q'' (AString (ExpandedSQL info)), Lit ''}'']) =
       (ExpandedSQL info \<noteq> [] \<and> ExpandedSQL info \<noteq> StmtOrTrigger info)
   \<and> (Lit '' no change when expanded'' \<in> set (fst (traceCallback info))) =
       (ExpandedSQL info \<noteq> [] \<and> ExpandedSQL info = StmtOrTrigger info)
   \<and> (Lit '' expanded {'' \<in> set (fst (traceCallback info))) =
       (ExpandedSQL info \<noteq> [] \<and> ExpandedSQL info \<noteq> StmtOrTrigger info)
   \<and> (dbErrText info = [Lit ''; DB error: '', Verb ''%#v'' (ADBError (DBError info))]) =
       (Code (DBError info) \<noteq> 0 \<or> ExtendedCode (DBError info) \<noteq> 0)
   \<and> (dbErrText info = [Lit ''.'']) =
       (Code (DBError info) = 0 \<and> ExtendedCode (DBError info) = 0)
   \<and> (Lit ''; DB error: '' \<in> set (fst (traceCallback info))) =
       (Code (DBError info) \<noteq> 0 \<or> ExtendedCode (DBError info) \<noteq> 0)"
proof -
  have line: "fst (traceCallback info) =
     [Lit ''Trace: ev 0x'', Verb ''%x'' (AUint (EventCode info)),
      Lit '', conn 0x'', Verb ''%x'' (AUint (ConnHandle info)),
      Lit '', stmt 0x'', Verb ''%x'' (AUint (StmtHandle info)),
      Lit '' {'', Verb ''%q'' (AString (StmtOrTrigger info)), Lit ''}'']
     @ expandedText info
     @ [Lit ''; '', Verb ''%d'' (AInt (RunTimeNanosec info)), Lit '' ns'']
     @ dbErrText info @ [Lit newline]"
    by (simp add: traceCallback_def)
  have ret: "snd (traceCallback info) = 0"
    by (simp add: traceCallback_def)
  have e1: "(expandedText info = []) = (ExpandedSQL info = [])"
    by (simp add: expandedText_def)
  have e2: "(expandedText info = [Lit '' no change when expanded'']) =
       (ExpandedSQL info \<noteq> [] \<and> ExpandedSQL info = StmtOrTrigger info)"
    by (simp add: expandedText_def)
  have e3: "(expandedText info =
         [Lit '' expanded {'', Verb ''%q'' (AString (ExpandedSQL info)), Lit ''}'']) =
       (ExpandedSQL info \<noteq> [] \<and> ExpandedSQL info \<noteq> StmtOrTrigger info)"
    by (simp add: expandedText_def)
  have l1: "(Lit '' no change when expanded'' \<in> set (fst (traceCallback info))) =
       (ExpandedSQL info \<noteq> [] \<and> ExpandedSQL info = StmtOrTrigger info)"
    unfolding line by (simp add: expandedText_def dbErrText_def newline_def)
  have l2: "(Lit '' expanded {'' \<in> set (fst (traceCallback info))) =
       (ExpandedSQL info \<noteq> [] \<and> ExpandedSQL info \<noteq> StmtOrTrigger info)"
    unfolding line by (simp add: expandedText_def dbErrText_def newline_def)
  have d1: "(dbErrText info = [Lit ''; DB error: '', Verb ''%#v'' (ADBError (DBError info))]) =
       (Code (DBError info) \<noteq> 0 \<or> ExtendedCode (DBError info) \<noteq> 0)"
    by (simp add: dbErrText_def)
  have d2: "(dbErrText info = [Lit ''.'']) =
       (Code (DBError info) = 0 \<and> ExtendedCode (DBError info) = 0)"
    by (simp add: dbErrText_def)
  have l3: "(Lit ''; DB error: '' \<in> set (fst (traceCallback info))) =
       (Code (DBError info) \<noteq> 0 \<or> ExtendedCode (DBError info) \<noteq> 0)"
    unfolding line by (simp add: expandedText_def dbErrText_def newline_def)
  from line ret e1 e2 e3 l1 l2 d1 d2 l3 show ?thesis by (intro conjI)
qed

theorem traceCallback_annotations_witness:
  "expandedText failedInfo =
     [Lit '' expanded {'',
      Verb ''%q'' (AString ''INSERT INTO t1 (seq_num, note) VALUES (0, NULL)''), Lit ''}'']
   \<and> dbErrText failedInfo =
       [Lit ''; DB error: '', Verb ''%#v'' (ADBError \<lparr>Code = 19, ExtendedCode = 1299\<rparr>)]
   \<and> Lit '' expanded {'' \<in> set (fst (traceCallback failedInfo))
   \<and> Lit ''; DB error: '' \<in> set (fst (traceCallback failedInfo))
   \<and> Lit '' no change when expanded'' \<notin> set (fst (traceCallback failedInfo))"
proof -
  note t = traceCallback_annotations [of failedInfo]
  have x: "ExpandedSQL failedInfo = ''INSERT INTO t1 (seq_num, note) VALUES (0, NULL)''"
    by (simp add: failedInfo_def)
  have d: "DBError failedInfo = \<lparr>Code = 19, ExtendedCode = 1299\<rparr>"
    by (simp add: failedInfo_def)
  have differs: "ExpandedSQL failedInfo \<noteq> [] \<and> ExpandedSQL failedInfo \<noteq> StmtOrTrigger failedInfo"
    by (simp add: failedInfo_def)
  have failed: "Code (DBError failedInfo) \<noteq> 0 \<or> ExtendedCode (DBError failedInfo) \<noteq> 0"
    by (simp add: failedInfo_def)
  from t differs have "expandedText failedInfo =
      [Lit '' expanded {'', Verb ''%q'' (AString (ExpandedSQL failedInfo)), Lit ''}'']"
    by blast
  then have w1: "expandedText failedInfo =
     [Lit '' expanded {'',
      Verb ''%q'' (AString ''INSERT INTO t1 (seq_num, note) VALUES (0, NULL)''), Lit ''}'']"
    by (simp only: x)
  from t failed have "dbErrText failedInfo =
      [Lit ''; DB error: '', Verb ''%#v'' (ADBError (DBError failedInfo))]"
    by blast
  then have w2: "dbErrText failedInfo =
       [Lit ''; DB error: '', Verb ''%#v'' (ADBError \<lparr>Code = 19, ExtendedCode = 1299\<rparr>)]"
    by (simp only: d)
  from t differs have w3: "Lit '' expanded {'' \<in> set (fst (traceCallback failedInfo))"
    by blast
  from t failed have w4: "Lit ''; DB error: '' \<in> set (fst (traceCallback failedInfo))"
    by blast
  from t differs have w5: "Lit '' no change when expanded'' \<notin> set (fst (traceCallback failedInfo))"
    by blast
  from w1 w2 w3 w4 w5 show ?thesis by (intro conjI)
qed

section \<open>Properties of the program\<close>

text \<open>
  C7. The event mask that \<^verbatim>\<open>main\<close> hands to the driver, in the one driver it
  registers, is the bitwise OR of the mask of the four boolean flags alone and of the
  mask of the string flag alone. Decoding the string into the configuration set by the
  boolean flags keeps every flag that was set and adds those whose letter occurs.
\<close>

theorem main_mask_union:
  "registeredMasks (fst (main k env cl s)) =
     [EventMask k (maskConf cl) OR EventMask k (DecodeStringArg zeroConfig (maskStr cl))]
   \<and> DecodeStringArg (maskConf cl) (maskStr cl) =
       \<lparr>Stmt = (Stmt (maskConf cl) \<or> CHR ''s'' \<in> set (maskStr cl)),
        Profile = (Profile (maskConf cl) \<or> CHR ''p'' \<in> set (maskStr cl)),
        Row = (Row (maskConf cl) \<or> CHR ''r'' \<in> set (maskStr cl)),
        Close = (Close (maskConf cl) \<or> CHR ''c'' \<in> set (maskStr cl))\<rparr>"
proof -
  have "registeredMasks (fst (main k env cl s)) =
     [EventMask k (maskConf cl) OR EventMask k (DecodeStringArg zeroConfig (maskStr cl))]"
    by (simp only: main_registers EventMask_union [of k "maskConf cl" "maskStr cl"])
  with DecodeStringArg_fields [of "maskConf cl" "maskStr cl"] show ?thesis
    by blast
qed

theorem main_mask_union_witness:
  "registeredMasks (fst (main sqliteTraceConsts countingEnv withFilename (0, 0))) = [1 OR 2]"
  using main_mask_union [of sqliteTraceConsts countingEnv withFilename "(0, 0)"]
  by (simp add: withFilename_def noFilename_def sqliteTraceConsts_def zeroConfig_def
        decodeChar_def EventMask_def)

text \<open>
  C9. If the file name of the database is empty, \<^verbatim>\<open>main\<close> ends with
  \<^verbatim>\<open>os.Exit(3)\<close>, has not called \<^verbatim>\<open>sql.Open\<close>, and has left the outside world as it
  was.
\<close>

theorem main_no_filename:
  assumes "dbFilename cl = []"
  shows "snd (main k env cl s) = (Exit 3, s) \<and> openAttempts (fst (main k env cl s)) = []"
  using assms by (simp add: main_def Let_def Println_def)

theorem main_no_filename_witness:
  "dbFilename noFilename = []
   \<and> snd (main sqliteTraceConsts countingEnv noFilename (0, 0)) = (Exit 3, (0, 0))
   \<and> openAttempts (fst (main sqliteTraceConsts countingEnv noFilename (0, 0))) = []"
proof -
  have e: "dbFilename noFilename = []"
    by (simp add: noFilename_def)
  from main_no_filename [where k = sqliteTraceConsts and env = countingEnv and s = "(0, 0)", OF e] e
  show ?thesis by blast
qed

end
